theory Spec2Isabelle
  imports Main "HOL-Library.Word"
begin

section \<open>The dispatch core: \<open>StaticStateMachine<States>\<close>\<close>

text \<open>
  \<open>Updater\<close> is \<open>void (States::*)()\<close>, a pointer to a member function of the
  implementation class. The only member functions whose address the library takes are the
  \<open>update_<name>\<close> functions that \<open>DECLARE_STATE_MEMBER(name)\<close> and
  \<open>DECLARE_STATE_ENTRY_MEMBER(to, name)\<close> declare, so a non-null \<open>Updater\<close> is
  \<open>update_member name\<close> for a declared name (type \<open>'n\<close>: the names one implementation
  class declares). Pointers to different member functions compare unequal, pointers to the
  same one compare equal: that is the equality of the datatype.

  The field \<open>_currentState\<close> has no initialiser and the class has no constructor. \<open>None\<close>
  stands for the value it holds before the first \<open>changeState\<close>: the null member pointer
  of a zero-initialised object (or an indeterminate value).
\<close>

datatype 'n Updater = update_member 'n

text \<open>
  The class has the single field \<open>_currentState\<close>. The fields a derived class adds (and
  the part of the outside world its member functions and the time source read and write)
  live in the extension of the record, so a function on
  \<open>('n, 'a) StaticStateMachine_scheme\<close> is a member function that every derived class
  inherits.
\<close>

record 'n StaticStateMachine =
  currentState :: "'n Updater option"

text \<open>
  \<open>struct name { static Updater state() { return &LogicImpl::update_ ## name; } }\<close>,
  as both declaration macros generate it. A state type \<open>S\<close> is given by its name.
\<close>

definition S_state :: "'n \<Rightarrow> 'n Updater" where
  "S_state name = update_member name"

text \<open>\<open>const volatile Updater& state() const { return _currentState; }\<close>\<close>

definition state :: "('n, 'a) StaticStateMachine_scheme \<Rightarrow> 'n Updater option" where
  "state m = currentState m"

text \<open>\<open>template<typename S> bool isState() const { return _currentState == S::state(); }\<close>\<close>

definition isState :: "'n \<Rightarrow> ('n, 'a) StaticStateMachine_scheme \<Rightarrow> bool" where
  "isState S m \<longleftrightarrow> currentState m = Some (S_state S)"

text \<open>\<open>template<typename S> void changeState() { _currentState = S::state(); }\<close>\<close>

definition changeState ::
  "'n \<Rightarrow> ('n, 'a) StaticStateMachine_scheme \<Rightarrow> ('n, 'a) StaticStateMachine_scheme" where
  "changeState S m = m\<lparr>currentState := Some (S_state S)\<rparr>"

text \<open>
  \<open>update()\<close> casts \<open>*this\<close> to the implementation class and calls the member function
  \<open>_currentState\<close> points to: \<open>(t.*t._currentState)()\<close>. The implementation class is
  given by its member functions: \<open>LogicImpl name\<close> is the body of \<open>update_<name>\<close>, a
  transformer of the whole object. Calling through the null member pointer is undefined
  behaviour; the model returns the error \<open>NullUpdater\<close> there.
\<close>

datatype error = NullUpdater

definition update ::
  "('n \<Rightarrow> ('n, 'a) StaticStateMachine_scheme \<Rightarrow> ('n, 'a) StaticStateMachine_scheme) \<Rightarrow>
   ('n, 'a) StaticStateMachine_scheme \<Rightarrow> error + ('n, 'a) StaticStateMachine_scheme" where
  "update LogicImpl t =
     (case currentState t of
        None \<Rightarrow> Inl NullUpdater
      | Some (update_member name) \<Rightarrow> Inr (LogicImpl name t))"

text \<open>
  The host calls \<open>update()\<close> once per iteration of its loop; \<open>updates n\<close> is \<open>n\<close>
  iterations, stopping at the first failure.
\<close>

fun updates ::
  "nat \<Rightarrow> ('n \<Rightarrow> ('n, 'a) StaticStateMachine_scheme \<Rightarrow> ('n, 'a) StaticStateMachine_scheme) \<Rightarrow>
   ('n, 'a) StaticStateMachine_scheme \<Rightarrow> error + ('n, 'a) StaticStateMachine_scheme" where
  "updates 0 LogicImpl t = Inr t"
| "updates (Suc n) LogicImpl t =
     (case update LogicImpl t of
        Inl e \<Rightarrow> Inl e
      | Inr t' \<Rightarrow> updates n LogicImpl t')"


section \<open>The timed variant: \<open>StaticStateMachine<States, TimedAttr<TimeType, TimeStamp>>\<close>\<close>

text \<open>
  The timed class derives from the core and adds the field \<open>_changeTS\<close> of the template
  parameter \<open>TimeType\<close>.
\<close>

record ('n, 'TimeType) TimedStaticStateMachine = "'n StaticStateMachine" +
  changeTS :: "'TimeType"

text \<open>
  \<open>TimeStamp\<close> is the template parameter of \<open>TimedAttr\<close> that points to the host's
  time source, a function returning \<open>TimeType\<close>. It takes no argument and reads the world; here it is a function of the record,
  whose extension holds the clock it reads. \<open>TimeType\<close> is an unsigned integer of
  \<open>LENGTH('w)\<close> bits, and \<open>-\<close> on \<open>'w word\<close> is C++'s subtraction on it, which wraps.

  \<open>TimeType stateElapsed() const { return TimeStamp() - _changeTS; }\<close>
\<close>

definition stateElapsed ::
  "(('n, 'w::len word, 'a) TimedStaticStateMachine_scheme \<Rightarrow> 'w word) \<Rightarrow>
   ('n, 'w word, 'a) TimedStaticStateMachine_scheme \<Rightarrow> 'w word" where
  "stateElapsed TimeStamp m = TimeStamp m - changeTS m"

text \<open>
  The derived \<open>changeState\<close>:
  \<open>_changeTS = TimeStamp(); StaticStateMachine<States>::template changeState<S>();\<close>
\<close>

definition Timed_changeState ::
  "(('n, 'w::len word, 'a) TimedStaticStateMachine_scheme \<Rightarrow> 'w word) \<Rightarrow> 'n \<Rightarrow>
   ('n, 'w word, 'a) TimedStaticStateMachine_scheme \<Rightarrow>
   ('n, 'w word, 'a) TimedStaticStateMachine_scheme" where
  "Timed_changeState TimeStamp S m = changeState S (m\<lparr>changeTS := TimeStamp m\<rparr>)"


section \<open>Entry states: \<open>DECLARE_STATE_ENTRY_MEMBER(to, name)\<close>\<close>

text \<open>
  The macro declares the state \<open>to_name\<close> and defines its member function
  \<open>update_to_name() { changeState<to>(); enter_to_name(); }\<close>; the block that follows
  the macro is the body of \<open>enter_to_name\<close>. The unqualified \<open>changeState\<close> is the one
  the implementation class inherits: the core's in a plain machine, the timed one in a
  timed machine. It is the first argument here.
\<close>

definition DECLARE_STATE_ENTRY_MEMBER ::
  "('n \<Rightarrow> 'm \<Rightarrow> 'm) \<Rightarrow> 'n \<Rightarrow> ('m \<Rightarrow> 'm) \<Rightarrow> 'm \<Rightarrow> 'm" where
  "DECLARE_STATE_ENTRY_MEMBER changeState_inherited to enter t =
     enter (changeState_inherited to t)"


section \<open>The example: \<open>BlinkerImpl\<close>\<close>

text \<open>
  The states of \<open>examples/TimedStaticStateMachineEntryExxample.ino\<close>: \<open>on\<close> and \<open>off\<close>
  (\<open>DECLARE_STATE_MEMBER\<close>), and the entry states \<open>on_init\<close>, \<open>on_\<close> and \<open>off_\<close>
  (\<open>DECLARE_STATE_ENTRY_MEMBER(on, init)\<close>, \<open>(on, )\<close> and \<open>(off, )\<close>). A name cannot end
  with an underscore here, so \<open>on_\<close> and \<open>off_\<close> are written \<open>on_'\<close> and \<open>off_'\<close>.
\<close>

datatype BlinkerImpl_state = on | off | on_init | on_' | off_'

text \<open>
  What the state bodies do to the outside world, in order: the calls of \<open>Serial.print\<close>
  and \<open>Serial.println\<close>, and of \<open>pinMode\<close> and \<open>digitalWrite\<close> on \<open>builtin_led_pin\<close>.
\<close>

datatype level = LOW | HIGH

datatype io_event =
    Serial_print string
  | Serial_println string
  | Serial_println_ulong "32 word"
  | pinMode_OUTPUT
  | digitalWrite level

text \<open>
  \<open>BlinkerImpl\<close> derives from \<open>StaticStateMachine<BlinkerImpl, TimedAttr<unsigned long, millis>>\<close>;
  \<open>unsigned long\<close> has 32 bits on the Arduino targets. The extension holds the world
  the example touches: the millisecond counter that \<open>millis()\<close> returns, and the trace of
  its output. The counter does not move while one state body runs.
\<close>

record BlinkerImpl = "(BlinkerImpl_state, 32 word) TimedStaticStateMachine" +
  millis_counter :: "32 word"
  io :: "io_event list"

definition millis :: "BlinkerImpl \<Rightarrow> 32 word" where
  "millis t = millis_counter t"

definition on_time :: "32 word" where
  "on_time = 300"

definition off_time :: "32 word" where
  "off_time = 700"

definition emit :: "io_event \<Rightarrow> BlinkerImpl \<Rightarrow> BlinkerImpl" where
  "emit e t = t\<lparr>io := io t @ [e]\<rparr>"

text \<open>\<open>DECLARE_STATE_MEMBER(on) { if (stateElapsed() > on_time) { ... changeState<off_>(); } }\<close>\<close>

definition update_on :: "BlinkerImpl \<Rightarrow> BlinkerImpl" where
  "update_on t =
     (if on_time < stateElapsed millis t then
        Timed_changeState millis off_'
          (emit (Serial_println_ulong (stateElapsed millis t))
            (emit (Serial_print ''Time elapsed in on state: '') t))
      else t)"

text \<open>\<open>DEFINE_STATE_MEMBER(BlinkerImpl, off) { if (stateElapsed() > off_time) { ... changeState<on_>(); } }\<close>\<close>

definition update_off :: "BlinkerImpl \<Rightarrow> BlinkerImpl" where
  "update_off t =
     (if off_time < stateElapsed millis t then
        Timed_changeState millis on_'
          (emit (Serial_println_ulong (stateElapsed millis t))
            (emit (Serial_print ''Time elapsed in off state: '') t))
      else t)"

text \<open>The entry bodies \<open>enter_on_init\<close>, \<open>enter_on_\<close> and \<open>enter_off_\<close>.\<close>

definition enter_on_init :: "BlinkerImpl \<Rightarrow> BlinkerImpl" where
  "enter_on_init t =
     Timed_changeState millis on_'
       (emit pinMode_OUTPUT (emit (Serial_println ''on_init state'') t))"

definition enter_on_' :: "BlinkerImpl \<Rightarrow> BlinkerImpl" where
  "enter_on_' t = emit (digitalWrite HIGH) (emit (Serial_println ''on_ state'') t)"

definition enter_off_' :: "BlinkerImpl \<Rightarrow> BlinkerImpl" where
  "enter_off_' t = emit (digitalWrite LOW) (emit (Serial_println ''off_ state'') t)"

text \<open>The member functions \<open>update_<name>\<close> of the class.\<close>

fun BlinkerImpl_update :: "BlinkerImpl_state \<Rightarrow> BlinkerImpl \<Rightarrow> BlinkerImpl" where
  "BlinkerImpl_update on = update_on"
| "BlinkerImpl_update off = update_off"
| "BlinkerImpl_update on_init =
     DECLARE_STATE_ENTRY_MEMBER (Timed_changeState millis) on enter_on_init"
| "BlinkerImpl_update on_' =
     DECLARE_STATE_ENTRY_MEMBER (Timed_changeState millis) on enter_on_'"
| "BlinkerImpl_update off_' =
     DECLARE_STATE_ENTRY_MEMBER (Timed_changeState millis) off enter_off_'"

text \<open>
  The global \<open>BlinkerImpl blinker\<close>: zero-initialised storage (a null \<open>_currentState\<close>),
  on which the constructor \<open>BlinkerImpl() { changeState<on_init>(); }\<close> runs, at the
  time \<open>ms\<close>.
\<close>

definition blinker_storage :: "32 word \<Rightarrow> BlinkerImpl" where
  "blinker_storage ms =
     \<lparr>currentState = None, changeTS = 0, millis_counter = ms, io = []\<rparr>"

definition blinker :: "32 word \<Rightarrow> BlinkerImpl" where
  "blinker ms = Timed_changeState millis on_init (blinker_storage ms)"


section \<open>Basic facts\<close>

lemma currentState_changeState [simp]:
  "currentState (changeState S m) = Some (S_state S)"
  by (simp add: changeState_def)

lemma more_changeState [simp]:
  "StaticStateMachine.more (changeState S m) = StaticStateMachine.more m"
  by (simp add: changeState_def)

lemma currentState_Timed_changeState [simp]:
  "currentState (Timed_changeState TimeStamp S m) = Some (S_state S)"
  by (simp add: Timed_changeState_def)

lemma changeTS_Timed_changeState [simp]:
  "changeTS (Timed_changeState TimeStamp S m) = TimeStamp m"
  by (simp add: Timed_changeState_def changeState_def)

lemma update_Some:
  "currentState t = Some (S_state S) \<Longrightarrow> update LogicImpl t = Inr (LogicImpl S t)"
  by (simp add: update_def S_state_def)

lemma update_None:
  "currentState t = None \<Longrightarrow> update LogicImpl t = Inl NullUpdater"
  by (simp add: update_def)

lemma S_state_inject [simp]: "S_state S = S_state T \<longleftrightarrow> S = T"
  by (simp add: S_state_def)


lemma update_uninitialised:
  "update BlinkerImpl_update (blinker_storage ms) = Inl NullUpdater"
  by (simp add: update_None blinker_storage_def)

text \<open>
  Where \<open>TimeType\<close> is narrower than \<open>int\<close>, C++ promotes both operands of the
  subtraction in \<open>stateElapsed\<close> to \<open>int\<close> and converts the difference back to
  \<open>TimeType\<close> on return. The result is the wrapping subtraction all the same.
\<close>

lemma stateElapsed_promoted:
  "word_of_int (uint (TimeStamp m) - uint (changeTS m)) = stateElapsed TimeStamp m"
  by (simp add: stateElapsed_def)

lemma word_of_nat_mod_len:
  "(of_nat (n mod 2 ^ LENGTH('w)) :: 'w::len word) = of_nat n"
  by (simp add: word_of_nat_eq_iff take_bit_eq_mod)

lemmas blinker_defs = blinker_def blinker_storage_def Timed_changeState_def changeState_def
  millis_def S_state_def DECLARE_STATE_ENTRY_MEMBER_def enter_on_init_def enter_on_'_def
  enter_off_'_def emit_def update_on_def update_off_def stateElapsed_def on_time_def off_time_def
  update_def isState_def

lemma updates_initialised:
  assumes "\<forall>name u. currentState u \<noteq> None \<longrightarrow> currentState (LogicImpl name u) \<noteq> None"
    and "currentState t \<noteq> None"
  shows "\<exists>t'. updates n LogicImpl t = Inr t' \<and> currentState t' \<noteq> None"
  using assms(2)
proof (induction n arbitrary: t)
  case 0
  then show ?case by simp
next
  case (Suc n)
  from Suc.prems obtain name where cur: "currentState t = Some (update_member name)"
    by (cases "currentState t") (auto intro: Updater.exhaust)
  then have step: "update LogicImpl t = Inr (LogicImpl name t)"
    by (simp add: update_def)
  have "currentState (LogicImpl name t) \<noteq> None"
    using assms(1) Suc.prems by blast
  from Suc.IH [OF this] step show ?case
    by simp
qed

lemma BlinkerImpl_update_initialised:
  "currentState u \<noteq> None \<Longrightarrow> currentState (BlinkerImpl_update name u) \<noteq> None"
  by (cases name)
    (simp_all add: update_on_def update_off_def DECLARE_STATE_ENTRY_MEMBER_def
      enter_on_init_def enter_on_'_def enter_off_'_def emit_def)


section \<open>Transitions and queries\<close>

text \<open>
  C1. For every declared state \<open>S\<close>, right after \<open>changeState<S>()\<close> the query
  \<open>isState<S>()\<close> is true and \<open>isState<T>()\<close> is false for every other declared state
  \<open>T\<close>. The same holds for the timed machine's \<open>changeState\<close>.
\<close>

theorem changeState_isState:
  "isState S (changeState S m) \<and>
   (\<forall>T. T \<noteq> S \<longrightarrow> \<not> isState T (changeState S m)) \<and>
   isState S (Timed_changeState TimeStamp S tm) \<and>
   (\<forall>T. T \<noteq> S \<longrightarrow> \<not> isState T (Timed_changeState TimeStamp S tm))"
  by (simp add: isState_def)

theorem changeState_isState_witness:
  "isState off (changeState off (blinker 0)) \<and>
   \<not> isState on_init (changeState off (blinker 0)) \<and>
   isState on (Timed_changeState millis on (blinker 0)) \<and>
   \<not> isState on_' (Timed_changeState millis on (blinker 0))"
  using changeState_isState [of off "blinker 0" millis "blinker 0"]
    changeState_isState [of on "blinker 0" millis "blinker 0"]
  by simp

text \<open>
  C7. Repeating \<open>changeState<S>()\<close> leaves the current state \<open>S\<close>: the core's
  \<open>changeState\<close> is idempotent, and of several calls the last one decides the selector,
  whatever (\<open>k\<close>, \<open>h\<close>) happens in between. In the timed machine every call stores the time of
  that call, so the elapsed time is 0 after each of them (the time source standing still
  since the call) and nothing accumulates; the timestamp is stored also when the machine
  is already in the target state.
\<close>

theorem changeState_repeated:
  "changeState S (changeState S m) = changeState S m \<and>
   currentState (changeState T (k (changeState S m))) = Some (S_state T) \<and>
   currentState (Timed_changeState TimeStamp S (h (Timed_changeState TimeStamp S tm))) =
     Some (S_state S) \<and>
   changeTS (Timed_changeState TimeStamp S (h (Timed_changeState TimeStamp S tm))) =
     TimeStamp (h (Timed_changeState TimeStamp S tm)) \<and>
   (TimeStamp (Timed_changeState TimeStamp S (h (Timed_changeState TimeStamp S tm))) =
      TimeStamp (h (Timed_changeState TimeStamp S tm)) \<longrightarrow>
    stateElapsed TimeStamp
      (Timed_changeState TimeStamp S (h (Timed_changeState TimeStamp S tm))) = 0) \<and>
   currentState (Timed_changeState TimeStamp T (h (Timed_changeState TimeStamp S tm))) =
     Some (S_state T) \<and>
   (isState S tm \<longrightarrow> changeTS (Timed_changeState TimeStamp S tm) = TimeStamp tm)"
  by (simp add: stateElapsed_def)

theorem changeState_repeated_witness:
  "millis (Timed_changeState millis on
      ((Timed_changeState millis on (blinker_storage 100))\<lparr>millis_counter := 150\<rparr>)) =
     millis ((Timed_changeState millis on (blinker_storage 100))\<lparr>millis_counter := 150\<rparr>) \<and>
   Timed_changeState millis on
      ((Timed_changeState millis on (blinker_storage 100))\<lparr>millis_counter := 150\<rparr>) =
     \<lparr>currentState = Some (S_state on), changeTS = 150, millis_counter = 150, io = []\<rparr> \<and>
   stateElapsed millis (Timed_changeState millis on
      ((Timed_changeState millis on (blinker_storage 100))\<lparr>millis_counter := 150\<rparr>)) = 0 \<and>
   isState on (Timed_changeState millis on (blinker_storage 100)) \<and>
   changeTS (Timed_changeState millis on
      ((Timed_changeState millis on (blinker_storage 100))\<lparr>millis_counter := 150\<rparr>)) = 150"
  using changeState_repeated [where S = on and m = "blinker_storage 100" and T = on
      and k = "\<lambda>u. u" and TimeStamp = millis and h = "\<lambda>u. u\<lparr>millis_counter := 150\<rparr>"
      and tm = "blinker_storage 100"]
    changeState_repeated [where S = on and m = "blinker_storage 100" and T = on
      and k = "\<lambda>u. u" and TimeStamp = millis and h = "\<lambda>u. u"
      and tm = "(Timed_changeState millis on (blinker_storage 100))\<lparr>millis_counter := 150\<rparr>"]
  by (simp add: blinker_defs)

text \<open>
  C9. \<open>changeState<S>()\<close> writes the selector and nothing else: the rest of the object
  (every field of a derived class) is as before. The timed \<open>changeState\<close> writes the
  selector and the timestamp and nothing else. \<open>isState<S>()\<close> is a \<open>const\<close> member
  function that returns a truth value and no new object, and its value depends on the
  selector alone.
\<close>

theorem changeState_frame:
  "StaticStateMachine.more (changeState S m) = StaticStateMachine.more m \<and>
   changeState S m = m\<lparr>currentState := Some (S_state S)\<rparr> \<and>
   TimedStaticStateMachine.more (Timed_changeState TimeStamp S tm) =
     TimedStaticStateMachine.more tm \<and>
   Timed_changeState TimeStamp S tm =
     tm\<lparr>currentState := Some (S_state S), changeTS := TimeStamp tm\<rparr> \<and>
   (currentState m = currentState m' \<longrightarrow> isState S m = isState S m')"
  by (simp add: changeState_def Timed_changeState_def isState_def)

theorem changeState_frame_witness:
  "millis_counter (Timed_changeState millis off (blinker 7)) = 7 \<and>
   io (Timed_changeState millis off (blinker 7)) = [] \<and>
   currentState (emit pinMode_OUTPUT (blinker 7)) = currentState (blinker 7) \<and>
   isState on_init (emit pinMode_OUTPUT (blinker 7)) = isState on_init (blinker 7)"
  using changeState_frame [where S = off and m = "blinker 7" and TimeStamp = millis
      and tm = "blinker 7" and m' = "blinker 7"]
    changeState_frame [where S = on_init and m = "emit pinMode_OUTPUT (blinker 7)"
      and TimeStamp = millis and tm = "blinker 7" and m' = "blinker 7"]
  by (simp add: blinker_defs)

text \<open>
  C10. The timed \<open>changeState\<close> hides the core's and does not override it. The core's
  \<open>changeState<S>()\<close>, called on a timed machine, assigns the selector and leaves
  \<open>_changeTS\<close> as it was, so \<open>stateElapsed()\<close> is not reset (it is what it was, the time
  source standing still across the call).
\<close>

theorem base_changeState_keeps_timestamp:
  fixes tm :: "('n, 'w::len word, 'a) TimedStaticStateMachine_scheme"
  shows "currentState (changeState S tm) = Some (S_state S) \<and>
   changeTS (changeState S tm) = changeTS tm \<and>
   (TimeStamp (changeState S tm) = TimeStamp tm \<longrightarrow>
      stateElapsed TimeStamp (changeState S tm) = stateElapsed TimeStamp tm)"
  by (simp add: changeState_def stateElapsed_def)

theorem base_changeState_keeps_timestamp_witness:
  "millis (changeState off ((blinker 100)\<lparr>millis_counter := 400\<rparr>)) =
     millis ((blinker 100)\<lparr>millis_counter := 400\<rparr>) \<and>
   isState off (changeState off ((blinker 100)\<lparr>millis_counter := 400\<rparr>)) \<and>
   changeTS (changeState off ((blinker 100)\<lparr>millis_counter := 400\<rparr>)) = 100 \<and>
   stateElapsed millis (changeState off ((blinker 100)\<lparr>millis_counter := 400\<rparr>)) = 300 \<and>
   stateElapsed millis (Timed_changeState millis off ((blinker 100)\<lparr>millis_counter := 400\<rparr>)) = 0"
  using base_changeState_keeps_timestamp [of off "(blinker 100)\<lparr>millis_counter := 400\<rparr>" millis]
  by (simp add: blinker_defs)


section \<open>Dispatch\<close>

text \<open>
  C2. One \<open>update()\<close> runs the member function of the current selector once: the object
  it leaves is the one that a single run of that function leaves. No other member
  function takes part: whatever the other step functions are, the result is the same.
\<close>

theorem update_invokes_current:
  "currentState t = Some (S_state S) \<Longrightarrow>
     update LogicImpl t = Inr (LogicImpl S t) \<and>
     (\<forall>LogicImpl'. LogicImpl' S = LogicImpl S \<longrightarrow> update LogicImpl' t = update LogicImpl t)"
  by (simp add: update_Some)

theorem update_invokes_current_witness:
  "currentState (blinker 0) = Some (S_state on_init) \<and>
   update BlinkerImpl_update (blinker 0) =
     Inr \<lparr>currentState = Some (update_member on_'), changeTS = 0, millis_counter = 0,
          io = [Serial_println ''on_init state'', pinMode_OUTPUT]\<rparr> \<and>
   update (\<lambda>name. if name = on_init then BlinkerImpl_update on_init else id) (blinker 0) =
     update BlinkerImpl_update (blinker 0)"
  using update_invokes_current [of "blinker 0" on_init BlinkerImpl_update]
  by (simp add: blinker_defs)

text \<open>
  C6. A step function that calls \<open>changeState<S>()\<close> in the middle of its body (after
  \<open>f\<close>, before \<open>g\<close>) runs to its end within the tick: \<open>update()\<close> returns what the rest
  \<open>g\<close> of the old state's body leaves. The step function of \<open>S\<close> is not run in that
  tick (the result does not depend on it), and the next \<open>update()\<close> runs it, when the rest
  of the body leaves the selector alone.
\<close>

theorem changeState_visible_next_update:
  assumes "currentState t = Some (S_state cur)"
    and "LogicImpl cur t = g (changeState S (f t))"
  shows "update LogicImpl t = Inr (g (changeState S (f t))) \<and>
    (S \<noteq> cur \<longrightarrow> (\<forall>body. update (LogicImpl(S := body)) t = update LogicImpl t)) \<and>
    ((\<forall>u. currentState (g u) = currentState u) \<longrightarrow>
       update LogicImpl (g (changeState S (f t))) =
         Inr (LogicImpl S (g (changeState S (f t)))))"
  using assms by (simp add: update_Some)

theorem changeState_visible_next_update_witness:
  "currentState (Timed_changeState millis on_' (blinker 0)) = Some (S_state on_') \<and>
   update BlinkerImpl_update (Timed_changeState millis on_' (blinker 0)) =
     Inr \<lparr>currentState = Some (S_state on), changeTS = 0, millis_counter = 0,
          io = [Serial_println ''on_ state'', digitalWrite HIGH]\<rparr> \<and>
   update (BlinkerImpl_update(on := id)) (Timed_changeState millis on_' (blinker 0)) =
     update BlinkerImpl_update (Timed_changeState millis on_' (blinker 0)) \<and>
   update BlinkerImpl_update
       \<lparr>currentState = Some (S_state on), changeTS = 0, millis_counter = 0,
        io = [Serial_println ''on_ state'', digitalWrite HIGH]\<rparr> =
     Inr (update_on
       \<lparr>currentState = Some (S_state on), changeTS = 0, millis_counter = 0,
        io = [Serial_println ''on_ state'', digitalWrite HIGH]\<rparr>)"
proof -
  let ?t = "Timed_changeState millis on_' (blinker 0)"
  have cur: "currentState ?t = Some (S_state on_')"
    by simp
  have body: "BlinkerImpl_update on_' ?t =
      enter_on_' (changeState on ((\<lambda>u. u\<lparr>changeTS := millis u\<rparr>) ?t))"
    by (simp add: DECLARE_STATE_ENTRY_MEMBER_def Timed_changeState_def)
  have rest: "\<forall>u. currentState (enter_on_' u) = currentState u"
    by (simp add: enter_on_'_def emit_def)
  have val: "enter_on_' (changeState on ((\<lambda>u. u\<lparr>changeTS := millis u\<rparr>) ?t)) =
      \<lparr>currentState = Some (S_state on), changeTS = 0, millis_counter = 0,
       io = [Serial_println ''on_ state'', digitalWrite HIGH]\<rparr>"
    by (simp add: blinker_defs)
  from changeState_visible_next_update [where t = ?t and cur = on_'
      and LogicImpl = BlinkerImpl_update and g = enter_on_' and S = on
      and f = "\<lambda>u. u\<lparr>changeTS := millis u\<rparr>"] cur body rest val
  show ?thesis
    by simp
qed

text \<open>
  C8. No operation has an error path but \<open>update()\<close>, whose call through
  \<open>_currentState\<close> needs the pointer to be set: \<open>changeState\<close>, \<open>isState\<close>, \<open>state\<close>
  and \<open>stateElapsed\<close> return plain values. After a \<open>changeState\<close> (the core's or the
  timed one) \<open>update()\<close> succeeds, and so does every further \<open>update()\<close> as long as the
  step functions leave the selector set, which they do when they change it through
  \<open>changeState\<close> only.
\<close>

theorem update_total_when_initialised:
  "(\<exists>t'. update LogicImpl (changeState S t) = Inr t') \<and>
   (\<exists>t'. update TimedImpl (Timed_changeState TimeStamp S tm) = Inr t') \<and>
   ((\<forall>name u. currentState u \<noteq> None \<longrightarrow> currentState (LogicImpl name u) \<noteq> None) \<longrightarrow>
      (\<forall>n. \<exists>t'. updates n LogicImpl (changeState S t) = Inr t')) \<and>
   ((\<forall>name u. currentState u \<noteq> None \<longrightarrow> currentState (TimedImpl name u) \<noteq> None) \<longrightarrow>
      (\<forall>n. \<exists>t'. updates n TimedImpl (Timed_changeState TimeStamp S tm) = Inr t'))"
proof -
  have a: "\<exists>t'. update LogicImpl (changeState S t) = Inr t'"
    by (simp add: update_Some)
  have b: "\<exists>t'. update TimedImpl (Timed_changeState TimeStamp S tm) = Inr t'"
    by (simp add: update_Some)
  have c: "\<exists>t'. updates n LogicImpl (changeState S t) = Inr t'"
    if "\<forall>name u. currentState u \<noteq> None \<longrightarrow> currentState (LogicImpl name u) \<noteq> None" for n
    using updates_initialised [OF that, of "changeState S t" n] by auto
  have d: "\<exists>t'. updates n TimedImpl (Timed_changeState TimeStamp S tm) = Inr t'"
    if "\<forall>name u. currentState u \<noteq> None \<longrightarrow> currentState (TimedImpl name u) \<noteq> None" for n
    using updates_initialised [OF that, of "Timed_changeState TimeStamp S tm" n] by auto
  from a b c d show ?thesis
    by blast
qed

theorem update_total_when_initialised_witness:
  "(\<exists>t'. update BlinkerImpl_update (changeState on_init (blinker_storage 0)) = Inr t') \<and>
   (\<exists>t'. updates 3 BlinkerImpl_update (blinker 0) = Inr t') \<and>
   updates 3 BlinkerImpl_update (blinker 0) =
     Inr \<lparr>currentState = Some (S_state on), changeTS = 0, millis_counter = 0,
          io = [Serial_println ''on_init state'', pinMode_OUTPUT,
                Serial_println ''on_ state'', digitalWrite HIGH]\<rparr>"
proof -
  have pres: "\<forall>name u. currentState u \<noteq> None \<longrightarrow>
      currentState (BlinkerImpl_update name u) \<noteq> None"
    using BlinkerImpl_update_initialised by blast
  have val: "updates 3 BlinkerImpl_update (blinker 0) =
     Inr \<lparr>currentState = Some (S_state on), changeTS = 0, millis_counter = 0,
          io = [Serial_println ''on_init state'', pinMode_OUTPUT,
                Serial_println ''on_ state'', digitalWrite HIGH]\<rparr>"
    by (simp add: numeral_3_eq_3 blinker_defs)
  from update_total_when_initialised [where LogicImpl = BlinkerImpl_update and S = on_init
      and t = "blinker_storage 0" and TimedImpl = BlinkerImpl_update and TimeStamp = millis
      and tm = "blinker_storage 0"] pres val
  show ?thesis
    by (simp add: blinker_def)
qed


section \<open>Elapsed time\<close>

text \<open>
  C3. The timed \<open>changeState<S>()\<close> stores the time it reads before the selector is
  assigned (the time source is read in the object as it was before the call) and then does
  the core's assignment. Right after the call \<open>stateElapsed()\<close> is 0, the time source
  standing still; and in any later world without a further transition in which the time
  source has moved on by \<open>d\<close> (a value of the time type), \<open>stateElapsed()\<close> is \<open>d\<close>.
\<close>

theorem Timed_changeState_elapsed:
  "Timed_changeState TimeStamp S m = changeState S (m\<lparr>changeTS := TimeStamp m\<rparr>) \<and>
   changeTS (Timed_changeState TimeStamp S m) = TimeStamp m \<and>
   currentState (Timed_changeState TimeStamp S m) = Some (S_state S) \<and>
   (TimeStamp (Timed_changeState TimeStamp S m) = TimeStamp m \<longrightarrow>
      stateElapsed TimeStamp (Timed_changeState TimeStamp S m) = 0) \<and>
   (\<forall>m' d. changeTS m' = changeTS (Timed_changeState TimeStamp S m) \<and>
            TimeStamp m' = TimeStamp m + d \<longrightarrow>
      stateElapsed TimeStamp m' = d)"
  by (simp add: stateElapsed_def) (simp add: Timed_changeState_def)

theorem Timed_changeState_elapsed_witness:
  "millis (Timed_changeState millis on (blinker_storage 1000)) = millis (blinker_storage 1000) \<and>
   stateElapsed millis (Timed_changeState millis on (blinker_storage 1000)) = 0 \<and>
   changeTS ((Timed_changeState millis on (blinker_storage 1000))\<lparr>millis_counter := 1250\<rparr>) =
     changeTS (Timed_changeState millis on (blinker_storage 1000)) \<and>
   millis ((Timed_changeState millis on (blinker_storage 1000))\<lparr>millis_counter := 1250\<rparr>) =
     millis (blinker_storage 1000) + 250 \<and>
   stateElapsed millis
     ((Timed_changeState millis on (blinker_storage 1000))\<lparr>millis_counter := 1250\<rparr>) = 250"
  using Timed_changeState_elapsed [of millis on "blinker_storage 1000"]
  by (simp add: blinker_defs)

text \<open>
  C5. \<open>stateElapsed()\<close> is right across a wrap-around of the time value: with the
  transition at \<open>t\<close> and the time source at \<open>(t + d) mod 2 ^ w\<close> for a duration
  \<open>d < 2 ^ w\<close>, it returns \<open>d\<close>.
\<close>

theorem stateElapsed_wraparound:
  fixes m :: "('n, 'w::len word, 'a) TimedStaticStateMachine_scheme"
  assumes "d < 2 ^ LENGTH('w)"
    and "changeTS m = t"
    and "TimeStamp m = of_nat ((unat t + d) mod 2 ^ LENGTH('w))"
  shows "unat (stateElapsed TimeStamp m) = d"
proof -
  have "TimeStamp m = t + of_nat d"
    using assms(3) by (simp add: word_of_nat_mod_len)
  then have "stateElapsed TimeStamp m = of_nat d"
    using assms(2) by (simp add: stateElapsed_def)
  then show ?thesis
    using assms(1) by (simp add: unat_of_nat)
qed

theorem stateElapsed_wraparound_witness:
  "(512::nat) < 2 ^ LENGTH(32) \<and>
   millis \<lparr>currentState = Some (S_state on), changeTS = 4294967040,
           millis_counter = 256, io = []\<rparr> =
     of_nat ((unat (4294967040 :: 32 word) + 512) mod 2 ^ LENGTH(32)) \<and>
   unat (stateElapsed millis
     \<lparr>currentState = Some (S_state on), changeTS = 4294967040,
      millis_counter = 256, io = []\<rparr>) = 512"
  using stateElapsed_wraparound [of 512
    "\<lparr>currentState = Some (S_state on), changeTS = 4294967040 :: 32 word,
      millis_counter = 256, io = []\<rparr>" 4294967040 millis]
  by (simp add: millis_def)


section \<open>Entry states\<close>

text \<open>
  C4, as stated, fails on the example itself. The machine starts at the entry state
  \<open>on_init\<close> of \<open>on\<close>, whose body ends with \<open>changeState<on_>()\<close>. The first
  \<open>update()\<close> leaves the machine in \<open>on_\<close>, not in \<open>on\<close>, and the second \<open>update()\<close>
  does not run the step function of \<open>on\<close> (it runs the entry state \<open>on_\<close>).
\<close>

theorem entry_state_second_update_counterexample:
  "currentState (blinker 0) = Some (S_state on_init) \<and>
   BlinkerImpl_update on_init =
     DECLARE_STATE_ENTRY_MEMBER (Timed_changeState millis) on enter_on_init \<and>
   update BlinkerImpl_update (blinker 0) =
     Inr \<lparr>currentState = Some (S_state on_'), changeTS = 0, millis_counter = 0,
          io = [Serial_println ''on_init state'', pinMode_OUTPUT]\<rparr> \<and>
   \<not> isState on
     \<lparr>currentState = Some (S_state on_'), changeTS = 0, millis_counter = 0,
      io = [Serial_println ''on_init state'', pinMode_OUTPUT]\<rparr> \<and>
   update BlinkerImpl_update
     \<lparr>currentState = Some (S_state on_'), changeTS = 0, millis_counter = 0,
      io = [Serial_println ''on_init state'', pinMode_OUTPUT]\<rparr> =
   Inr \<lparr>currentState = Some (S_state on), changeTS = 0, millis_counter = 0,
        io = [Serial_println ''on_init state'', pinMode_OUTPUT,
              Serial_println ''on_ state'', digitalWrite HIGH]\<rparr> \<and>
   update BlinkerImpl_update
     \<lparr>currentState = Some (S_state on_'), changeTS = 0, millis_counter = 0,
      io = [Serial_println ''on_init state'', pinMode_OUTPUT]\<rparr> \<noteq>
   Inr (BlinkerImpl_update on
     \<lparr>currentState = Some (S_state on_'), changeTS = 0, millis_counter = 0,
      io = [Serial_println ''on_init state'', pinMode_OUTPUT]\<rparr>)"
  by (simp add: blinker_defs)

text \<open>
  C4, amended. One \<open>update()\<close> at an entry selector of target \<open>to\<close> first makes the
  transition to \<open>to\<close> (the timed machine storing the time) and then runs the entry body
  once, on the object after the transition: the body starts in state \<open>to\<close>, not in the
  entry state. The selector after the tick is the one the entry body leaves. When that is
  still \<open>to\<close>, the second \<open>update()\<close> runs the ordinary step function of \<open>to\<close>.
\<close>

theorem entry_state_update:
  fixes t :: "('n, 'a) StaticStateMachine_scheme"
    and tt :: "('n, 'w::len word, 'b) TimedStaticStateMachine_scheme"
  shows
  "(currentState t = Some (S_state e) \<and>
    LogicImpl e = DECLARE_STATE_ENTRY_MEMBER changeState to enter \<longrightarrow>
      update LogicImpl t = Inr (enter (changeState to t)) \<and>
      isState to (changeState to t) \<and>
      (e \<noteq> to \<longrightarrow> \<not> isState e (changeState to t)) \<and>
      (currentState (enter (changeState to t)) = Some (S_state to) \<longrightarrow>
         update LogicImpl (enter (changeState to t)) =
           Inr (LogicImpl to (enter (changeState to t))))) \<and>
   (currentState tt = Some (S_state e) \<and>
    TimedImpl e = DECLARE_STATE_ENTRY_MEMBER (Timed_changeState TimeStamp) to tenter \<longrightarrow>
      update TimedImpl tt = Inr (tenter (Timed_changeState TimeStamp to tt)) \<and>
      isState to (Timed_changeState TimeStamp to tt) \<and>
      changeTS (Timed_changeState TimeStamp to tt) = TimeStamp tt \<and>
      (e \<noteq> to \<longrightarrow> \<not> isState e (Timed_changeState TimeStamp to tt)) \<and>
      (currentState (tenter (Timed_changeState TimeStamp to tt)) = Some (S_state to) \<longrightarrow>
         update TimedImpl (tenter (Timed_changeState TimeStamp to tt)) =
           Inr (TimedImpl to (tenter (Timed_changeState TimeStamp to tt)))))"
proof -
  have base: "update LogicImpl t = Inr (enter (changeState to t)) \<and>
      isState to (changeState to t) \<and>
      (e \<noteq> to \<longrightarrow> \<not> isState e (changeState to t)) \<and>
      (currentState (enter (changeState to t)) = Some (S_state to) \<longrightarrow>
         update LogicImpl (enter (changeState to t)) =
           Inr (LogicImpl to (enter (changeState to t))))"
    if "currentState t = Some (S_state e)"
      and "LogicImpl e = DECLARE_STATE_ENTRY_MEMBER changeState to enter"
    using that by (simp add: update_Some DECLARE_STATE_ENTRY_MEMBER_def isState_def)
  have timed: "update TimedImpl tt = Inr (tenter (Timed_changeState TimeStamp to tt)) \<and>
      isState to (Timed_changeState TimeStamp to tt) \<and>
      changeTS (Timed_changeState TimeStamp to tt) = TimeStamp tt \<and>
      (e \<noteq> to \<longrightarrow> \<not> isState e (Timed_changeState TimeStamp to tt)) \<and>
      (currentState (tenter (Timed_changeState TimeStamp to tt)) = Some (S_state to) \<longrightarrow>
         update TimedImpl (tenter (Timed_changeState TimeStamp to tt)) =
           Inr (TimedImpl to (tenter (Timed_changeState TimeStamp to tt))))"
    if "currentState tt = Some (S_state e)"
      and "TimedImpl e = DECLARE_STATE_ENTRY_MEMBER (Timed_changeState TimeStamp) to tenter"
    using that by (simp add: update_Some DECLARE_STATE_ENTRY_MEMBER_def isState_def)
  from base timed show ?thesis
    by blast
qed

theorem entry_state_update_witness:
  "currentState ((changeState on_' (blinker 5))\<lparr>millis_counter := 9\<rparr>) = Some (S_state on_') \<and>
   update (BlinkerImpl_update(on_' := DECLARE_STATE_ENTRY_MEMBER changeState on enter_on_'))
       ((changeState on_' (blinker 5))\<lparr>millis_counter := 9\<rparr>) =
     Inr \<lparr>currentState = Some (S_state on), changeTS = 5, millis_counter = 9,
          io = [Serial_println ''on_ state'', digitalWrite HIGH]\<rparr> \<and>
   update BlinkerImpl_update ((changeState on_' (blinker 5))\<lparr>millis_counter := 9\<rparr>) =
     Inr \<lparr>currentState = Some (S_state on), changeTS = 9, millis_counter = 9,
          io = [Serial_println ''on_ state'', digitalWrite HIGH]\<rparr> \<and>
   isState on (Timed_changeState millis on
     ((changeState on_' (blinker 5))\<lparr>millis_counter := 9\<rparr>)) \<and>
   \<not> isState on_' (Timed_changeState millis on
     ((changeState on_' (blinker 5))\<lparr>millis_counter := 9\<rparr>)) \<and>
   update BlinkerImpl_update
       \<lparr>currentState = Some (S_state on), changeTS = 9, millis_counter = 9,
        io = [Serial_println ''on_ state'', digitalWrite HIGH]\<rparr> =
     Inr (update_on
       \<lparr>currentState = Some (S_state on), changeTS = 9, millis_counter = 9,
        io = [Serial_println ''on_ state'', digitalWrite HIGH]\<rparr>)"
proof -
  let ?t = "(changeState on_' (blinker 5))\<lparr>millis_counter := 9\<rparr>"
  let ?Plain = "BlinkerImpl_update(on_' := DECLARE_STATE_ENTRY_MEMBER changeState on enter_on_')"
  have cur: "currentState ?t = Some (S_state on_')"
    by (simp add: changeState_def)
  have decl: "BlinkerImpl_update on_' =
      DECLARE_STATE_ENTRY_MEMBER (Timed_changeState millis) on enter_on_'"
    by simp
  have plain: "?Plain on_' = DECLARE_STATE_ENTRY_MEMBER changeState on enter_on_'"
    by simp
  have val: "enter_on_' (Timed_changeState millis on ?t) =
      \<lparr>currentState = Some (S_state on), changeTS = 9, millis_counter = 9,
       io = [Serial_println ''on_ state'', digitalWrite HIGH]\<rparr>"
    by (simp add: blinker_defs)
  have val': "enter_on_' (changeState on ?t) =
      \<lparr>currentState = Some (S_state on), changeTS = 5, millis_counter = 9,
       io = [Serial_println ''on_ state'', digitalWrite HIGH]\<rparr>"
    by (simp add: blinker_defs)
  from entry_state_update [where t = ?t and LogicImpl = ?Plain and enter = enter_on_'
      and tt = ?t and e = on_' and TimedImpl = BlinkerImpl_update
      and TimeStamp = millis and to = on and tenter = enter_on_'] cur decl plain val val'
  show ?thesis
    by simp
qed

end
